theory Spec2Isabelle
  imports Main "HOL-Library.Word"
begin

section \<open>EventToken.h: the token type\<close>

text \<open>
  The header \<^verbatim>\<open>vendor_patch/webview/libs/mswebview2/include/EventToken.h\<close> is
  \<^verbatim>\<open>
  #ifndef _EVENTTOKEN_H_
  #define _EVENTTOKEN_H_

  #include <stdint.h>

  typedef struct EventRegistrationToken {
      int64_t value;
  } EventRegistrationToken;

  #endif // _EVENTTOKEN_H_
  \<close>
  The C type \<^verbatim>\<open>int64_t\<close> is a two's complement integer of exactly 64 bits, without
  padding bits: a \<open>64 word\<close>, read as a signed number by \<open>sint\<close>. The struct is a
  record with the one member the header declares.
\<close>

type_synonym int64_t = "64 word"

record EventRegistrationToken =
  "value" :: int64_t

subsection \<open>The header as a transformer of the translation unit\<close>

text \<open>
  Compiling a translation unit threads a state through the lines of every included file:
  the macros defined so far, the struct tags defined so far with their members, and the
  typedef names. A second definition of a struct tag in the same scope is the
  redefinition error of C; a typedef name may be declared again only for the same type;
  a member whose type name is not declared is an error too.
\<close>

datatype c_type = Builtin string | Named string | Struct string

datatype compile_error = Redefinition string | UnknownType c_type

record translation_unit =
  macros :: "string list"
  struct_defs :: "(string \<times> (string \<times> c_type) list) list"
  typedef_names :: "(string \<times> c_type) list"

definition macro_defined :: "string \<Rightarrow> translation_unit \<Rightarrow> bool" where
  "macro_defined m tu = (m \<in> set (macros tu))"

definition define_macro :: "string \<Rightarrow> translation_unit \<Rightarrow> translation_unit" where
  "define_macro m tu = tu\<lparr>macros := m # macros tu\<rparr>"

fun type_known :: "translation_unit \<Rightarrow> c_type \<Rightarrow> bool" where
  "type_known tu (Builtin b) = True"
| "type_known tu (Named n) = (n \<in> fst ` set (typedef_names tu))"
| "type_known tu (Struct s) = (s \<in> fst ` set (struct_defs tu))"

definition define_struct ::
  "string \<Rightarrow> (string \<times> c_type) list \<Rightarrow> translation_unit \<Rightarrow> compile_error + translation_unit" where
  "define_struct tag members tu =
     (if tag \<in> fst ` set (struct_defs tu) then Inl (Redefinition tag)
      else case find (\<lambda>ty. \<not> type_known tu ty) (map snd members) of
             Some ty \<Rightarrow> Inl (UnknownType ty)
           | None \<Rightarrow> Inr (tu\<lparr>struct_defs := struct_defs tu @ [(tag, members)]\<rparr>))"

definition define_typedef ::
  "string \<Rightarrow> c_type \<Rightarrow> translation_unit \<Rightarrow> compile_error + translation_unit" where
  "define_typedef name ty tu =
     (if \<not> type_known tu ty then Inl (UnknownType ty)
      else case map_of (typedef_names tu) name of
             Some ty' \<Rightarrow> if ty' = ty then Inr tu else Inl (Redefinition name)
           | None \<Rightarrow> Inr (tu\<lparr>typedef_names := typedef_names tu @ [(name, ty)]\<rparr>))"

text \<open>
  Lines 9 to 11, one declaration: it defines the struct tag with its member and then the
  typedef name for the struct type.
\<close>

definition EventRegistrationToken_decl :: "translation_unit \<Rightarrow> compile_error + translation_unit" where
  "EventRegistrationToken_decl tu =
     (case define_struct ''EventRegistrationToken'' [(''value'', Named ''int64_t'')] tu of
        Inl e \<Rightarrow> Inl e
      | Inr tu' \<Rightarrow> define_typedef ''EventRegistrationToken'' (Struct ''EventRegistrationToken'') tu')"

text \<open>
  Lines 7 to 11, what the guard encloses after its \<^verbatim>\<open>#define\<close>: the inclusion of
  \<^verbatim>\<open><stdint.h>\<close> and the declaration. The system header is not part of the
  repository: it is the parameter \<open>stdint_h\<close>, any transformer of the translation unit.
\<close>

definition EventToken_body ::
  "(translation_unit \<Rightarrow> compile_error + translation_unit) \<Rightarrow> translation_unit
   \<Rightarrow> compile_error + translation_unit" where
  "EventToken_body stdint_h tu =
     (case stdint_h tu of Inl e \<Rightarrow> Inl e | Inr tu' \<Rightarrow> EventRegistrationToken_decl tu')"




definition keeps_structs :: "(translation_unit \<Rightarrow> compile_error + translation_unit) \<Rightarrow> bool" where
  "keeps_structs f = (\<forall>tu tu'. f tu = Inr tu' \<longrightarrow> set (struct_defs tu) \<subseteq> set (struct_defs tu'))"

text \<open>
  A smallest \<^verbatim>\<open><stdint.h>\<close> for concrete runs: guarded by a macro of its own, it
  declares the one typedef name the header uses.
\<close>

definition stdint_h_min :: "translation_unit \<Rightarrow> compile_error + translation_unit" where
  "stdint_h_min tu =
     (if macro_defined ''_STDINT_H'' tu then Inr tu
      else define_typedef ''int64_t'' (Builtin ''long long'') (define_macro ''_STDINT_H'' tu))"

definition empty_unit :: translation_unit where
  "empty_unit = \<lparr>macros = [], struct_defs = [], typedef_names = []\<rparr>"

section \<open>The token type and the 64-bit integers\<close>

lemma token_cases: "\<exists>n. (t :: EventRegistrationToken) = \<lparr>value = n\<rparr>"
  by (cases t) simp

lemma token_UNIV: "(UNIV :: EventRegistrationToken set) = range (\<lambda>n. \<lparr>value = n\<rparr>)"
  using token_cases by auto

lemma token_inj: "inj (\<lambda>n :: int64_t. \<lparr>value = n\<rparr>)"
  by (rule injI) simp

lemma token_card: "card (UNIV :: EventRegistrationToken set) = 2 ^ 64"
proof -
  have "card (UNIV :: EventRegistrationToken set) = card (UNIV :: int64_t set)"
    unfolding token_UNIV by (rule card_image [OF token_inj])
  then show ?thesis by (simp add: card_word)
qed

text \<open>
  C4. The token type has no invariant beyond its width: every signed 64-bit integer
  \<open>n\<close>, from \<open>- 2 ^ 63\<close> up to \<open>2 ^ 63 - 1\<close>, zero and the negative ones included, is
  the value of a token, namely of the token initialised from \<open>n\<close>.
\<close>

theorem every_int64_is_a_token_value:
  assumes "- (2 ^ 63) \<le> n" and "n < 2 ^ 63"
  shows "\<exists>t :: EventRegistrationToken. t = \<lparr>value = word_of_int n\<rparr> \<and> sint (value t) = n"
proof -
  have "sint (word_of_int n :: int64_t) = signed_take_bit 63 n"
    by (simp add: sint_sbintrunc')
  also have "\<dots> = n"
    using assms by (rule signed_take_bit_int_eq_self)
  finally show ?thesis by simp
qed

theorem every_int64_is_a_token_value_witness:
  "- (2 ^ 63) \<le> (- 9223372036854775808 :: int) \<and> (- 9223372036854775808 :: int) < 2 ^ 63
   \<and> (\<exists>t :: EventRegistrationToken.
         t = \<lparr>value = word_of_int (- 9223372036854775808)\<rparr>
         \<and> sint (value t) = - 9223372036854775808)"
proof -
  have lo: "- (2 ^ 63) \<le> (- 9223372036854775808 :: int)" by simp
  have hi: "(- 9223372036854775808 :: int) < 2 ^ 63" by simp
  from lo hi every_int64_is_a_token_value [OF lo hi] show ?thesis by (intro conjI)
qed

text \<open>
  C8. The token type is isomorphic to the 64-bit integers: reading the member of the
  token initialised from \<open>n\<close> gives \<open>n\<close> back, and initialising a token from the member
  of a token \<open>t\<close> gives \<open>t\<close> back.
\<close>

theorem token_int64_round_trip:
  "value (\<lparr>value = n\<rparr> :: EventRegistrationToken) = n
   \<and> \<lparr>value = value t\<rparr> = (t :: EventRegistrationToken)"
  by simp

text \<open>
  C9. Two tokens are equal exactly when their \<open>value\<close> members are equal: the member is
  all there is to a token.
\<close>

theorem token_equality_extensional:
  "(s :: EventRegistrationToken) = t \<longleftrightarrow> value s = value t"
  by (cases s, cases t) simp

section \<open>The include guard\<close>


lemma decl_defines_struct:
  "EventRegistrationToken_decl tu = Inr tu' \<Longrightarrow>
   ''EventRegistrationToken'' \<in> fst ` set (struct_defs tu')"
  by (auto simp: EventRegistrationToken_decl_def define_struct_def define_typedef_def
      split: sum.splits if_splits option.splits)

lemma decl_twice_conflicts:
  "''EventRegistrationToken'' \<in> fst ` set (struct_defs tu) \<Longrightarrow>
   EventRegistrationToken_decl tu = Inl (Redefinition ''EventRegistrationToken'')"
  by (simp add: EventRegistrationToken_decl_def define_struct_def)

text \<open>
  The conflict is real: the lines the guard encloses, compiled a second time, define the
  struct tag a second time.
\<close>

lemma unguarded_body_twice_conflicts:
  assumes "keeps_structs stdint_h" and "EventToken_body stdint_h tu = Inr tu'"
    and "stdint_h tu' = Inr tu''"
  shows "EventToken_body stdint_h tu' = Inl (Redefinition ''EventRegistrationToken'')"
proof -
  from assms(2) obtain tu1 where "EventRegistrationToken_decl tu1 = Inr tu'"
    by (auto simp: EventToken_body_def split: sum.splits)
  then have "''EventRegistrationToken'' \<in> fst ` set (struct_defs tu')"
    by (rule decl_defines_struct)
  with assms(1,3) have "''EventRegistrationToken'' \<in> fst ` set (struct_defs tu'')"
    unfolding keeps_structs_def by blast
  then show ?thesis
    using assms(3) by (simp add: EventToken_body_def decl_twice_conflicts)
qed

lemma unguarded_body_twice_example:
  "(case EventToken_body stdint_h_min empty_unit of
      Inl e \<Rightarrow> Inl e
    | Inr tu \<Rightarrow> EventToken_body stdint_h_min tu)
   = Inl (Redefinition ''EventRegistrationToken'')"
  by (simp add: EventToken_body_def EventRegistrationToken_decl_def stdint_h_min_def
      define_struct_def define_typedef_def define_macro_def macro_defined_def empty_unit_def)





lemma stdint_h_min_keeps_structs: "keeps_structs stdint_h_min"
  by (auto simp: keeps_structs_def stdint_h_min_def define_typedef_def define_macro_def
      split: if_splits option.splits)




end
